theory Spec2Isabelle
  imports Complex_Main "HOL-Library.Word"
begin

unbundle bit_operations_syntax

section \<open>Base58 decoding (withdraw-all and open-position scripts)\<close>

text \<open>
  Both scripts carry their own copy of \<^verbatim>\<open>decodeBase58\<close>. Each copy is embedded on its
  own, statement by statement. A JavaScript string is a \<open>string\<close>; the \<^verbatim>\<open>bytes\<close> array
  holds JavaScript numbers, modelled as \<open>nat\<close>; a thrown \<^verbatim>\<open>Error\<close> is the left summand,
  carrying the offending character. The result is what \<^verbatim>\<open>new Uint8Array\<close> stores.
\<close>

datatype base58_error = InvalidBase58Character char

definition error_message :: "base58_error \<Rightarrow> string" where
  "error_message e = (case e of InvalidBase58Character c \<Rightarrow> ''Invalid base58 character: '' @ [c])"

subsection \<open>The copy of the withdraw-all script\<close>

definition withdraw_ALPHABET :: string where
  "withdraw_ALPHABET = ''123456789ABCDEFGHJKLMNPQRSTUVWXYZabcdefghijkmnopqrstuvwxyz''"

text \<open>\<^verbatim>\<open>for (let i = 0; i < ALPHABET.length; i++) ALPHABET_MAP[ALPHABET[i]] = i\<close>\<close>

definition withdraw_ALPHABET_MAP :: "char \<rightharpoonup> nat" where
  "withdraw_ALPHABET_MAP =
     fold (\<lambda>i m. m(withdraw_ALPHABET ! i \<mapsto> i)) [0 ..< length withdraw_ALPHABET] Map.empty"

text \<open>
  The inner \<^verbatim>\<open>for\<close> loop over \<^verbatim>\<open>j\<close>: multiply the little-endian number in \<^verbatim>\<open>bytes\<close>
  by 58 and add \<^verbatim>\<open>carry\<close>, in place.
\<close>

function withdraw_multiply :: "nat \<Rightarrow> nat list \<Rightarrow> nat \<Rightarrow> nat list \<times> nat" where
  "withdraw_multiply j bytes carry =
     (if j < length bytes then
        (let carry1 = carry + bytes ! j * 58
         in withdraw_multiply (j + 1) (bytes[j := carry1 AND 0xff]) (drop_bit 8 carry1))
      else (bytes, carry))"
  by pat_completeness auto
termination
  by (relation "measure (\<lambda>(j, bytes, carry). length bytes - j)") auto

declare withdraw_multiply.simps [simp del]

text \<open>\<^verbatim>\<open>while (carry > 0) { bytes.push(carry & 0xff); carry >>= 8; }\<close>\<close>

function withdraw_push_carry :: "nat list \<Rightarrow> nat \<Rightarrow> nat list" where
  "withdraw_push_carry bytes carry =
     (if carry > 0 then withdraw_push_carry (bytes @ [carry AND 0xff]) (drop_bit 8 carry)
      else bytes)"
  by pat_completeness auto
termination
  by (relation "measure (\<lambda>(bytes, carry). carry)") (auto simp: drop_bit_eq_div)

declare withdraw_push_carry.simps [simp del]

text \<open>The first \<^verbatim>\<open>for (const char of encoded)\<close> loop.\<close>

fun withdraw_decode_chars :: "string \<Rightarrow> nat list \<Rightarrow> base58_error + nat list" where
  "withdraw_decode_chars [] bytes = Inr bytes"
| "withdraw_decode_chars (char # rest) bytes =
     (case withdraw_ALPHABET_MAP char of
        None \<Rightarrow> Inl (InvalidBase58Character char)
      | Some v \<Rightarrow>
          (case withdraw_multiply 0 bytes v of
             (bytes1, carry) \<Rightarrow> withdraw_decode_chars rest (withdraw_push_carry bytes1 carry)))"

text \<open>The second loop: one zero byte for each leading \<^verbatim>\<open>"1"\<close>, stopping at the first other character.\<close>

fun withdraw_leading_zeros :: "string \<Rightarrow> nat list \<Rightarrow> nat list" where
  "withdraw_leading_zeros [] bytes = bytes"
| "withdraw_leading_zeros (char # rest) bytes =
     (if char = CHR ''1'' then withdraw_leading_zeros rest (bytes @ [0]) else bytes)"

definition withdraw_decodeBase58 :: "string \<Rightarrow> base58_error + 8 word list" where
  "withdraw_decodeBase58 encoded =
     (if length encoded = 0 then Inr []
      else
        (case withdraw_decode_chars encoded [0] of
           Inl e \<Rightarrow> Inl e
         | Inr bytes \<Rightarrow> Inr (map word_of_nat (rev (withdraw_leading_zeros encoded bytes)))))"

subsection \<open>The copy of the open-position script\<close>

definition open_ALPHABET :: string where
  "open_ALPHABET = ''123456789ABCDEFGHJKLMNPQRSTUVWXYZabcdefghijkmnopqrstuvwxyz''"

definition open_ALPHABET_MAP :: "char \<rightharpoonup> nat" where
  "open_ALPHABET_MAP =
     fold (\<lambda>i m. m(open_ALPHABET ! i \<mapsto> i)) [0 ..< length open_ALPHABET] Map.empty"

function open_multiply :: "nat \<Rightarrow> nat list \<Rightarrow> nat \<Rightarrow> nat list \<times> nat" where
  "open_multiply j bytes carry =
     (if j < length bytes then
        (let carry1 = carry + bytes ! j * 58
         in open_multiply (j + 1) (bytes[j := carry1 AND 0xff]) (drop_bit 8 carry1))
      else (bytes, carry))"
  by pat_completeness auto
termination
  by (relation "measure (\<lambda>(j, bytes, carry). length bytes - j)") auto

declare open_multiply.simps [simp del]

function open_push_carry :: "nat list \<Rightarrow> nat \<Rightarrow> nat list" where
  "open_push_carry bytes carry =
     (if carry > 0 then open_push_carry (bytes @ [carry AND 0xff]) (drop_bit 8 carry)
      else bytes)"
  by pat_completeness auto
termination
  by (relation "measure (\<lambda>(bytes, carry). carry)") (auto simp: drop_bit_eq_div)

declare open_push_carry.simps [simp del]

fun open_decode_chars :: "string \<Rightarrow> nat list \<Rightarrow> base58_error + nat list" where
  "open_decode_chars [] bytes = Inr bytes"
| "open_decode_chars (char # rest) bytes =
     (case open_ALPHABET_MAP char of
        None \<Rightarrow> Inl (InvalidBase58Character char)
      | Some v \<Rightarrow>
          (case open_multiply 0 bytes v of
             (bytes1, carry) \<Rightarrow> open_decode_chars rest (open_push_carry bytes1 carry)))"

fun open_leading_zeros :: "string \<Rightarrow> nat list \<Rightarrow> nat list" where
  "open_leading_zeros [] bytes = bytes"
| "open_leading_zeros (char # rest) bytes =
     (if char = CHR ''1'' then open_leading_zeros rest (bytes @ [0]) else bytes)"

definition open_decodeBase58 :: "string \<Rightarrow> base58_error + 8 word list" where
  "open_decodeBase58 encoded =
     (if length encoded = 0 then Inr []
      else
        (case open_decode_chars encoded [0] of
           Inl e \<Rightarrow> Inl e
         | Inr bytes \<Rightarrow> Inr (map word_of_nat (rev (open_leading_zeros encoded bytes)))))"

section \<open>What the executor scripts read and write\<close>

text \<open>
  Each script is a process: it reads its arguments and environment, calls the RPC node
  and the Orca SDK, prints one JSON value on standard output and exits. The answers of
  the outside world are the fields of a record \<open>world\<close>; a call that can throw returns
  \<open>message + 'a\<close>, the left summand being the message the \<^verbatim>\<open>catch\<close> block prints
  (\<^verbatim>\<open>err.message\<close> or \<^verbatim>\<open>String(err)\<close>). The field \<open>argv\<close> holds the arguments after the
  name of the script, \<^verbatim>\<open>process.argv.slice(2)\<close>. A run of a script is the list of its effects, what
  it printed on standard output, and its exit code.
\<close>

type_synonym message = string

text \<open>A JavaScript number that may fail to be one: \<^verbatim>\<open>parseFloat\<close> and the price functions return these.\<close>

datatype number = NaN | NegInfinity | Number real | PosInfinity

fun isNaN :: "number \<Rightarrow> bool" where
  "isNaN NaN = True"
| "isNaN _ = False"

text \<open>\<^verbatim>\<open>a >= b\<close> on numbers: false as soon as one side is \<^verbatim>\<open>NaN\<close>.\<close>

fun number_ge :: "number \<Rightarrow> number \<Rightarrow> bool" where
  "number_ge NaN _ = False"
| "number_ge _ NaN = False"
| "number_ge PosInfinity _ = True"
| "number_ge _ NegInfinity = True"
| "number_ge NegInfinity _ = False"
| "number_ge _ PosInfinity = False"
| "number_ge (Number a) (Number b) = (a \<ge> b)"

text \<open>
  The values handed to \<^verbatim>\<open>JSON.stringify\<close>. \<open>JInt\<close> is a number that is an integer (a tick,
  a fee rate); an object keeps its keys in the order of the object literal.
\<close>

datatype json =
    JString string
  | JBool bool
  | JInt int
  | JNumber number
  | JArray "json list"
  | JObject "(string \<times> json) list"

text \<open>\<^verbatim>\<open>obj[key]\<close>: \<open>None\<close> is \<^verbatim>\<open>undefined\<close>, also on a value that is not an object.\<close>

fun field :: "json \<Rightarrow> string \<Rightarrow> json option" where
  "field (JObject kvs) key = map_of kvs key"
| "field _ key = None"

text \<open>\<^verbatim>\<open>bigint.toString()\<close>: the decimal digits.\<close>

function bigint_toString :: "nat \<Rightarrow> string" where
  "bigint_toString n =
     (if n < 10 then [char_of (48 + n)]
      else bigint_toString (n div 10) @ [char_of (48 + n mod 10)])"
  by pat_completeness auto
termination
  by (relation "measure (\<lambda>n. n)") auto

declare bigint_toString.simps [simp del]

record position_data =
  whirlpool :: string
  tickLowerIndex :: int
  tickUpperIndex :: int
  liquidity :: nat
  feeOwedA :: nat
  feeOwedB :: nat

record whirlpool_data =
  sqrtPrice :: nat
  tokenMintA :: string
  tokenMintB :: string
  tickSpacing :: nat
  tickCurrentIndex :: int
  pool_liquidity :: nat
  feeRate :: nat

text \<open>What \<^verbatim>\<open>closePositionInstructions\<close> returns, as far as the script reads it.\<close>

record close_position =
  quote_tokenEstA :: nat
  quote_tokenEstB :: nat
  feesQuote_feeOwedA :: nat
  feesQuote_feeOwedB :: nat
  rewardsQuote_rewards :: "nat list"

text \<open>What \<^verbatim>\<open>openConcentratedPosition\<close> returns, as far as the script reads it.\<close>

record open_position =
  open_tokenEstA :: nat
  open_tokenEstB :: nat
  open_liquidityDelta :: nat
  open_positionMint :: string

record signed_transaction =
  signature :: string
  txBase64 :: string

text \<open>
  One entry of \<^verbatim>\<open>getSignatureStatuses\<close>: \<open>err\<close> is the JSON text of the transaction error
  (\<open>None\<close> for \<^verbatim>\<open>null\<close>), \<open>confirmationStatus\<close> the commitment level reached.
\<close>

record signature_status =
  err :: "string option"
  confirmationStatus :: "string option"

text \<open>The decimals of a mint: \<open>None\<close> is \<^verbatim>\<open>undefined\<close>, a read past the end of the buffer.\<close>

type_synonym decimals = "nat option"

record world =
  argv :: "string list"
  SOLANA_PRIVATE_KEY :: "string option"
  SOLANA_KEYPAIR_PATH :: "string option"
  readKeypairFile :: "string \<Rightarrow> message + 8 word list"
  createKeyPairSignerFromBytes :: "8 word list \<Rightarrow> message + string"
  setPayerFromBytes :: "8 word list \<Rightarrow> message + unit"
  setWhirlpoolsConfig :: "message + unit"
  getPositionAddress :: "string \<Rightarrow> message + string"
  fetchPosition :: "string \<Rightarrow> message + position_data"
  fetchWhirlpool :: "string \<Rightarrow> message + whirlpool_data"
  getAccountInfo :: "string \<Rightarrow> message + 8 word list option"
  sqrtPriceToPrice :: "nat \<Rightarrow> decimals \<Rightarrow> decimals \<Rightarrow> number"
  tickIndexToPrice :: "int \<Rightarrow> decimals \<Rightarrow> decimals \<Rightarrow> number"
  number_toString :: "number \<Rightarrow> string"
  closePositionInstructions :: "string \<Rightarrow> nat \<Rightarrow> string \<Rightarrow> message + close_position"
  getLatestBlockhash :: "message + string"
  signTransaction :: "message + signed_transaction"
  simulateTransaction :: "message + string option"
  sendTransaction :: "message + unit"
  getSignatureStatuses :: "nat \<Rightarrow> message + signature_status option"
  parseFloat :: "string \<Rightarrow> number"
  BigInt :: "string \<Rightarrow> int option"
  openConcentratedPosition ::
    "string \<Rightarrow> bool \<times> int \<Rightarrow> number \<Rightarrow> number \<Rightarrow> nat \<Rightarrow> message + open_position"
  callback :: "message + string"

text \<open>
  The fields follow the calls of the scripts. \<open>readKeypairFile\<close> is \<^verbatim>\<open>fs.readFileSync\<close>
  with \<^verbatim>\<open>JSON.parse\<close>; \<open>getPositionAddress\<close> includes \<^verbatim>\<open>address(positionMint)\<close>, which
  throws on a malformed address; \<open>signTransaction\<close> stands for building, compiling and
  signing the message; \<open>simulateTransaction\<close> answers \<^verbatim>\<open>simulation.value.err\<close> as JSON text;
  \<open>getSignatureStatuses i\<close> is the answer to the poll with loop index \<open>i\<close>, its
  \<^verbatim>\<open>status.value[0]\<close>; \<open>closePositionInstructions\<close> takes the position mint, the
  slippage in basis points and the signer; \<open>openConcentratedPosition\<close> takes the pool
  address, the liquidity parameter (whether it is an amount of token B, and the amount),
  the two prices and the slippage; \<open>fetchWhirlpool\<close> includes \<^verbatim>\<open>address(poolAddress)\<close>;
  \<open>getAccountInfo\<close> answers the decoded account data, \<open>None\<close> for a missing account;
  \<open>number_toString\<close> is \<^verbatim>\<open>toString\<close> on a price; \<open>BigInt\<close> is \<open>None\<close> where the constructor throws a
  \<^verbatim>\<open>SyntaxError\<close>. The setters of the SDK that do not touch the network
  (\<^verbatim>\<open>setDefaultFunder\<close>, \<^verbatim>\<open>setNativeMintWrappingStrategy\<close>, \<^verbatim>\<open>setPriorityFeeSetting\<close>,
  \<^verbatim>\<open>createSolanaRpc\<close>, \<^verbatim>\<open>setRpc\<close>) are taken not to throw.
\<close>

datatype effect =
    FetchPosition
  | FetchWhirlpool
  | GetAccountInfo
  | ClosePositionInstructions
  | GetLatestBlockhash
  | SimulateTransaction
  | SendTransaction
  | OpenConcentratedPosition
  | Callback
  | Sleep nat
  | GetSignatureStatuses
  | Stderr string

datatype run = Run (effects: "effect list") (stdout: "json option") (exit_code: nat)

text \<open>
  How the body of a \<^verbatim>\<open>try\<close> block ends: an exception on its way to the \<^verbatim>\<open>catch\<close>, a
  \<^verbatim>\<open>console.log\<close> followed by \<^verbatim>\<open>process.exit\<close>, or the last \<^verbatim>\<open>console.log\<close> of the block.
\<close>

datatype ending = Thrown message | Exited json nat | Completed json

text \<open>
  One call of the body: it leaves the effects \<open>es\<close>; if it throws, the body ends there,
  otherwise the rest of the body \<open>k\<close> runs on its value.
\<close>

definition attempt ::
  "effect list \<Rightarrow> message + 'a \<Rightarrow> ('a \<Rightarrow> effect list \<times> ending) \<Rightarrow> effect list \<times> ending" where
  "attempt es r k =
     (case r of
        Inl m \<Rightarrow> (es, Thrown m)
      | Inr x \<Rightarrow> (case k x of (es', e) \<Rightarrow> (es @ es', e)))"

text \<open>A string is truthy unless it is \<^verbatim>\<open>undefined\<close> or empty.\<close>

fun truthy :: "string option \<Rightarrow> bool" where
  "truthy None = False"
| "truthy (Some s) = (s \<noteq> [])"

text \<open>\<^verbatim>\<open>process.argv[2 + i]\<close>\<close>

definition arg :: "world \<Rightarrow> nat \<Rightarrow> string option" where
  "arg w i = (if i < length (argv w) then Some (argv w ! i) else None)"

text \<open>How a loop that polls for confirmation ends.\<close>

datatype confirmation = Confirmed | TransactionFailed string | NotConfirmed | PollThrew message

definition is_final :: "signature_status \<Rightarrow> bool" where
  "is_final st \<longleftrightarrow>
     confirmationStatus st = Some ''confirmed'' \<or> confirmationStatus st = Some ''finalized''"

section \<open>The withdraw-all script\<close>

definition WithdrawError :: "string \<Rightarrow> string \<Rightarrow> json" where
  "WithdrawError error positionMint =
     JObject [(''success'', JBool False), (''error'', JString error),
              (''positionMint'', JString positionMint)]"

definition WithdrawResult :: "string \<Rightarrow> close_position \<Rightarrow> string \<Rightarrow> json" where
  "WithdrawResult positionMint c txid =
     JObject [(''success'', JBool True), (''positionMint'', JString positionMint),
              (''amountAWithdrawn'', JString (bigint_toString (quote_tokenEstA c))),
              (''amountBWithdrawn'', JString (bigint_toString (quote_tokenEstB c))),
              (''feeCollectedA'', JString (bigint_toString (feesQuote_feeOwedA c))),
              (''feeCollectedB'', JString (bigint_toString (feesQuote_feeOwedB c))),
              (''rewardsCollected'',
                 JArray (map (\<lambda>r. JString (bigint_toString r)) (rewardsQuote_rewards c))),
              (''txid'', JString txid)]"

definition withdraw_loadKeypair :: "world \<Rightarrow> message + string" where
  "withdraw_loadKeypair w =
     (if truthy (SOLANA_PRIVATE_KEY w) then
        (case withdraw_decodeBase58 (the (SOLANA_PRIVATE_KEY w)) of
           Inl e \<Rightarrow> Inl (error_message e)
         | Inr keypairBytes \<Rightarrow> createKeyPairSignerFromBytes w keypairBytes)
      else if truthy (SOLANA_KEYPAIR_PATH w) then
        (case readKeypairFile w (the (SOLANA_KEYPAIR_PATH w)) of
           Inl m \<Rightarrow> Inl m
         | Inr keypairData \<Rightarrow> createKeyPairSignerFromBytes w keypairData)
      else Inl ''No keypair found. Set SOLANA_PRIVATE_KEY (base58) or SOLANA_KEYPAIR_PATH (JSON file path)'')"

text \<open>
  The confirmation loop, entered with loop index \<open>i\<close>. Every pass sleeps 2000 ms and asks
  for the status once. A transaction error ends the script at once (\<^verbatim>\<open>process.exit\<close> inside
  the loop), a confirmed or finalized status leaves the loop, anything else goes round.
\<close>

function withdraw_confirm :: "world \<Rightarrow> nat \<Rightarrow> nat \<Rightarrow> effect list \<times> confirmation" where
  "withdraw_confirm w maxRetries i =
     (if i < maxRetries then
        (case getSignatureStatuses w i of
           Inl m \<Rightarrow> ([Sleep 2000, GetSignatureStatuses], PollThrew m)
         | Inr None \<Rightarrow>
             (case withdraw_confirm w maxRetries (i + 1) of
                (es, c) \<Rightarrow> (Sleep 2000 # GetSignatureStatuses # es, c))
         | Inr (Some st) \<Rightarrow>
             (case err st of
                Some e \<Rightarrow> ([Sleep 2000, GetSignatureStatuses], TransactionFailed e)
              | None \<Rightarrow>
                  if is_final st then ([Sleep 2000, GetSignatureStatuses], Confirmed)
                  else
                    (case withdraw_confirm w maxRetries (i + 1) of
                       (es, c) \<Rightarrow> (Sleep 2000 # GetSignatureStatuses # es, c))))
      else ([], NotConfirmed))"
  by pat_completeness auto
termination
  by (relation "measure (\<lambda>(w, maxRetries, i). maxRetries - i)") auto

declare withdraw_confirm.simps [simp del]

text \<open>The \<^verbatim>\<open>try\<close> block of \<^verbatim>\<open>main\<close>, from the simulation on.\<close>

definition withdraw_submit ::
  "world \<Rightarrow> string \<Rightarrow> close_position \<Rightarrow> signed_transaction \<Rightarrow> effect list \<times> ending" where
  "withdraw_submit w positionMint c signedTx =
     attempt [SimulateTransaction] (simulateTransaction w) (\<lambda>simulation_err.
       case simulation_err of
         Some e \<Rightarrow> ([], Exited (WithdrawError (''Simulation failed: '' @ e) positionMint) 1)
       | None \<Rightarrow>
           attempt [SendTransaction] (sendTransaction w) (\<lambda>_.
             case withdraw_confirm w 30 0 of
               (es, PollThrew m) \<Rightarrow> (es, Thrown m)
             | (es, TransactionFailed e) \<Rightarrow>
                 (es, Exited (WithdrawError (''Transaction failed: '' @ e) positionMint) 1)
             | (es, NotConfirmed) \<Rightarrow>
                 (es, Exited (WithdrawError ''Transaction confirmation timeout'' positionMint) 1)
             | (es, Confirmed) \<Rightarrow>
                 (es, Completed (WithdrawResult positionMint c (signature signedTx)))))"

text \<open>The whole \<^verbatim>\<open>try\<close> block of \<^verbatim>\<open>main\<close>.\<close>

definition withdraw_try :: "world \<Rightarrow> string \<Rightarrow> effect list \<times> ending" where
  "withdraw_try w positionMint =
     attempt [] (withdraw_loadKeypair w) (\<lambda>signer.
     attempt [] (setWhirlpoolsConfig w) (\<lambda>_.
     attempt [] (getPositionAddress w positionMint) (\<lambda>positionAddress.
     attempt [FetchPosition] (fetchPosition w positionAddress) (\<lambda>position.
       if liquidity position = 0 then
         ([], Exited (WithdrawError ''Position has no liquidity to withdraw'' positionMint) 1)
       else
         attempt [ClosePositionInstructions]
           (closePositionInstructions w positionMint 100 signer) (\<lambda>c.
         attempt [GetLatestBlockhash] (getLatestBlockhash w) (\<lambda>latestBlockhash.
         attempt [] (signTransaction w) (\<lambda>signedTx.
           withdraw_submit w positionMint c signedTx)))))))"

definition withdraw_main :: "world \<Rightarrow> run" where
  "withdraw_main w =
     (if \<not> truthy (arg w 0) then
        Run [] (Some (WithdrawError ''Usage: node withdraw-all.js <POSITION_MINT>'' [])) 1
      else
        (let positionMint = the (arg w 0) in
         case withdraw_try w positionMint of
           (es, Thrown m) \<Rightarrow> Run es (Some (WithdrawError m positionMint)) 1
         | (es, Exited j code) \<Rightarrow> Run es (Some j) code
         | (es, Completed j) \<Rightarrow> Run es (Some j) 0))"

section \<open>The open-position script\<close>

definition OpenPositionError :: "string \<Rightarrow> json" where
  "OpenPositionError error = JObject [(''success'', JBool False), (''error'', JString error)]"

definition OpenPositionResult ::
  "open_position \<Rightarrow> number \<Rightarrow> number \<Rightarrow> string \<Rightarrow> json" where
  "OpenPositionResult p lowerPrice upperPrice txid =
     JObject [(''success'', JBool True), (''positionMint'', JString (open_positionMint p)),
              (''lowerPrice'', JNumber lowerPrice), (''upperPrice'', JNumber upperPrice),
              (''tokenADeposited'', JString (bigint_toString (open_tokenEstA p))),
              (''tokenBDeposited'', JString (bigint_toString (open_tokenEstB p))),
              (''liquidityDelta'', JString (bigint_toString (open_liquidityDelta p))),
              (''txid'', JString txid)]"

definition loadKeypairBytes :: "world \<Rightarrow> message + 8 word list" where
  "loadKeypairBytes w =
     (if truthy (SOLANA_PRIVATE_KEY w) then
        (case open_decodeBase58 (the (SOLANA_PRIVATE_KEY w)) of
           Inl e \<Rightarrow> Inl (error_message e)
         | Inr keypairBytes \<Rightarrow> Inr keypairBytes)
      else if truthy (SOLANA_KEYPAIR_PATH w) then readKeypairFile w (the (SOLANA_KEYPAIR_PATH w))
      else Inl ''No keypair found. Set SOLANA_PRIVATE_KEY (base58) or SOLANA_KEYPAIR_PATH'')"

definition printUsage :: run where
  "printUsage =
     Run [] (Some (OpenPositionError
       ''Usage: node open-position.js <WHIRLPOOL_ADDRESS> <LOWER_PRICE> <UPPER_PRICE> <TOKEN_A_AMOUNT | TOKEN_B_AMOUNT> [--token-a | --token-b]'')) 1"

text \<open>
  The confirmation loop of this script sets the flags \<^verbatim>\<open>failed\<close> and \<^verbatim>\<open>confirmed\<close> and
  leaves by \<^verbatim>\<open>break\<close>; the result says which flag was set, if any.
\<close>

function open_confirm :: "world \<Rightarrow> nat \<Rightarrow> nat \<Rightarrow> effect list \<times> confirmation" where
  "open_confirm w maxRetries i =
     (if i < maxRetries then
        (case getSignatureStatuses w i of
           Inl m \<Rightarrow> ([Sleep 2000, GetSignatureStatuses], PollThrew m)
         | Inr None \<Rightarrow>
             (case open_confirm w maxRetries (i + 1) of
                (es, c) \<Rightarrow> (Sleep 2000 # GetSignatureStatuses # es, c))
         | Inr (Some st) \<Rightarrow>
             (case err st of
                Some e \<Rightarrow> ([Sleep 2000, GetSignatureStatuses], TransactionFailed e)
              | None \<Rightarrow>
                  if is_final st then ([Sleep 2000, GetSignatureStatuses], Confirmed)
                  else
                    (case open_confirm w maxRetries (i + 1) of
                       (es, c) \<Rightarrow> (Sleep 2000 # GetSignatureStatuses # es, c))))
      else ([], NotConfirmed))"
  by pat_completeness auto
termination
  by (relation "measure (\<lambda>(w, maxRetries, i). maxRetries - i)") auto

declare open_confirm.simps [simp del]

text \<open>
  The \<^verbatim>\<open>try\<close> block of \<^verbatim>\<open>main\<close>. Of the diagnostic lines on standard error only the
  confirmation warning is kept. When neither flag is set after the loop, the script
  warns on standard error and prints the success result all the same.
\<close>

definition open_try ::
  "world \<Rightarrow> string \<Rightarrow> number \<Rightarrow> number \<Rightarrow> int \<Rightarrow> bool \<Rightarrow> effect list \<times> ending" where
  "open_try w whirlpoolAddress lowerPrice upperPrice tokenAmount useTokenB =
     attempt [] (setWhirlpoolsConfig w) (\<lambda>_.
     attempt [] (loadKeypairBytes w) (\<lambda>keypairBytes.
     attempt [] (setPayerFromBytes w keypairBytes) (\<lambda>_.
     attempt [OpenConcentratedPosition]
       (openConcentratedPosition w whirlpoolAddress (useTokenB, tokenAmount)
          lowerPrice upperPrice 100) (\<lambda>p.
     attempt [Callback] (callback w) (\<lambda>signature.
       case open_confirm w 15 0 of
         (es, PollThrew m) \<Rightarrow> (es, Thrown m)
       | (es, TransactionFailed errorMsg) \<Rightarrow>
           (es, Exited (OpenPositionError (''Transaction failed: '' @ errorMsg)) 1)
       | (es, NotConfirmed) \<Rightarrow>
           (es @ [Stderr ''Confirmation timeout - check Solscan for status''],
            Completed (OpenPositionResult p lowerPrice upperPrice signature))
       | (es, Confirmed) \<Rightarrow>
           (es, Completed (OpenPositionResult p lowerPrice upperPrice signature)))))))"

text \<open>
  \<^verbatim>\<open>main\<close>. The amount is converted by \<^verbatim>\<open>BigInt\<close> before the \<^verbatim>\<open>try\<close> block and before the
  check of the prices: where it throws, the promise of \<^verbatim>\<open>main\<close> is rejected with nobody
  to catch it, so the process dies with exit code 1 and nothing on standard output.
\<close>

definition open_main :: "world \<Rightarrow> run" where
  "open_main w =
     (let args = argv w in
      if length args < 4 then printUsage
      else
        (let whirlpoolAddress = args ! 0;
             lowerPrice = parseFloat w (args ! 1);
             upperPrice = parseFloat w (args ! 2)
         in
           case BigInt w (args ! 3) of
             None \<Rightarrow> Run [] None 1
           | Some tokenAmount \<Rightarrow>
               let useTokenB = (''--token-b'' \<in> set args) in
               if isNaN lowerPrice \<or> isNaN upperPrice \<or> number_ge lowerPrice upperPrice then
                 Run [] (Some (OpenPositionError
                   ''Invalid price range: lowerPrice must be < upperPrice'')) 1
               else
                 (case open_try w whirlpoolAddress lowerPrice upperPrice tokenAmount useTokenB of
                    (es, Thrown m) \<Rightarrow> Run es (Some (OpenPositionError m)) 1
                  | (es, Exited j code) \<Rightarrow> Run es (Some j) code
                  | (es, Completed j) \<Rightarrow> Run es (Some j) 0)))"

section \<open>The fetch-pool script\<close>

definition PoolInfo :: "world \<Rightarrow> string \<Rightarrow> whirlpool_data \<Rightarrow> number \<Rightarrow> json" where
  "PoolInfo w poolAddress pool currentPrice =
     JObject [(''whirlpool'', JString poolAddress),
              (''mintA'', JString (tokenMintA pool)),
              (''mintB'', JString (tokenMintB pool)),
              (''tickSpacing'', JInt (int (tickSpacing pool))),
              (''currentTick'', JInt (tickCurrentIndex pool)),
              (''currentSqrtPrice'', JString (bigint_toString (sqrtPrice pool))),
              (''currentPrice'', JString (number_toString w currentPrice)),
              (''liquidity'', JString (bigint_toString (pool_liquidity pool))),
              (''feeRate'', JInt (int (feeRate pool)))]"

definition fetch_pool_try :: "world \<Rightarrow> string \<Rightarrow> effect list \<times> ending" where
  "fetch_pool_try w poolAddress =
     attempt [] (setWhirlpoolsConfig w) (\<lambda>_.
     attempt [FetchWhirlpool] (fetchWhirlpool w poolAddress) (\<lambda>pool.
       let decimalsA = Some 9;
           decimalsB = Some 6;
           currentPrice = sqrtPriceToPrice w (sqrtPrice pool) decimalsA decimalsB
       in ([], Completed (PoolInfo w poolAddress pool currentPrice))))"

definition fetch_pool_main :: "world \<Rightarrow> run" where
  "fetch_pool_main w =
     (if \<not> truthy (arg w 0) then
        Run [] (Some (JObject [(''error'', JString ''Usage: node fetch-pool.js <WHIRLPOOL_ADDRESS>'')])) 1
      else
        (let poolAddress = the (arg w 0) in
         case fetch_pool_try w poolAddress of
           (es, Thrown m) \<Rightarrow> Run es (Some (JObject [(''error'', JString m)])) 1
         | (es, Exited j code) \<Rightarrow> Run es (Some j) code
         | (es, Completed j) \<Rightarrow> Run es (Some j) 0))"

section \<open>The fetch-position script\<close>

text \<open>
  \<^verbatim>\<open>fetchTokenDecimals\<close>: 6 when the mint account is missing, else the byte at offset 44
  of its data.
\<close>

definition fetchTokenDecimals :: "world \<Rightarrow> string \<Rightarrow> message + decimals" where
  "fetchTokenDecimals w mint =
     (case getAccountInfo w mint of
        Inl m \<Rightarrow> Inl m
      | Inr None \<Rightarrow> Inr (Some 6)
      | Inr (Some data) \<Rightarrow> Inr (if 44 < length data then Some (unat (data ! 44)) else None))"

definition PositionSnapshot ::
  "world \<Rightarrow> string \<Rightarrow> string \<Rightarrow> position_data \<Rightarrow> whirlpool_data \<Rightarrow> number \<Rightarrow> number \<Rightarrow> number \<Rightarrow>
   bool \<Rightarrow> json" where
  "PositionSnapshot w positionMint positionAddress position pool currentPrice lowerPrice
       upperPrice inRange =
     JObject [(''positionMint'', JString positionMint),
              (''positionAddress'', JString positionAddress),
              (''whirlpool'', JString (whirlpool position)),
              (''currentTick'', JInt (tickCurrentIndex pool)),
              (''currentSqrtPrice'', JString (bigint_toString (sqrtPrice pool))),
              (''currentPrice'', JString (number_toString w currentPrice)),
              (''tickSpacing'', JInt (int (tickSpacing pool))),
              (''lowerTick'', JInt (tickLowerIndex position)),
              (''upperTick'', JInt (tickUpperIndex position)),
              (''lowerPrice'', JString (number_toString w lowerPrice)),
              (''upperPrice'', JString (number_toString w upperPrice)),
              (''liquidity'', JString (bigint_toString (liquidity position))),
              (''mintA'', JString (tokenMintA pool)),
              (''mintB'', JString (tokenMintB pool)),
              (''inRange'', JBool inRange),
              (''feeOwedA'', JString (bigint_toString (feeOwedA position))),
              (''feeOwedB'', JString (bigint_toString (feeOwedB position)))]"

text \<open>
  The body of \<^verbatim>\<open>main\<close>. \<^verbatim>\<open>Promise.all\<close> starts both reads of the decimals before it
  waits for either.
\<close>

definition fetch_position_body :: "world \<Rightarrow> string \<Rightarrow> effect list \<times> ending" where
  "fetch_position_body w positionMint =
     attempt [] (setWhirlpoolsConfig w) (\<lambda>_.
     attempt [] (getPositionAddress w positionMint) (\<lambda>positionAddress.
     attempt [FetchPosition] (fetchPosition w positionAddress) (\<lambda>position.
     attempt [FetchWhirlpool] (fetchWhirlpool w (whirlpool position)) (\<lambda>pool.
     attempt [GetAccountInfo, GetAccountInfo] (fetchTokenDecimals w (tokenMintA pool)) (\<lambda>decimalsA.
     attempt [] (fetchTokenDecimals w (tokenMintB pool)) (\<lambda>decimalsB.
       let currentPrice = sqrtPriceToPrice w (sqrtPrice pool) decimalsA decimalsB;
           lowerPrice = tickIndexToPrice w (tickLowerIndex position) decimalsA decimalsB;
           upperPrice = tickIndexToPrice w (tickUpperIndex position) decimalsA decimalsB;
           currentTick = tickCurrentIndex pool;
           inRange = (currentTick \<ge> tickLowerIndex position \<and> currentTick < tickUpperIndex position)
       in ([], Completed (PositionSnapshot w positionMint positionAddress position pool
                            currentPrice lowerPrice upperPrice inRange))))))))"

text \<open>
  \<^verbatim>\<open>main\<close> with its \<^verbatim>\<open>catch\<close>: an error goes to standard error only, and the exit code
  is 1.
\<close>

definition fetch_position_main :: "world \<Rightarrow> run" where
  "fetch_position_main w =
     (if \<not> truthy (arg w 0) then
        Run [Stderr ''Usage: node fetch-position.js <POSITION_MINT>''] None 1
      else
        (let positionMint = the (arg w 0) in
         case fetch_position_body w positionMint of
           (es, Thrown m) \<Rightarrow> Run (es @ [Stderr (''Error: '' @ m)]) None 1
         | (es, Exited j code) \<Rightarrow> Run es (Some j) code
         | (es, Completed j) \<Rightarrow> Run es (Some j) 0))"

section \<open>The orchestrator\<close>

text \<open>
  Modelled from the spec: the configuration record \<^verbatim>\<open>RebalanceConfig\<close> of the orchestrator
  (section 3). The orchestrator (monitor, trigger evaluator, range selector, state store
  and workflow) is Python code of the repository that is not among the sources embedded
  above; percentages and prices are real numbers, as the specification writes them.
\<close>

record RebalanceConfig =
  pool_address :: string
  position_mint :: "string option"
  check_interval_seconds :: nat
  out_of_range :: bool
  edge_threshold_pct :: real
  range_width_pct :: real
  target_sol_pct :: real
  dry_run :: bool
  min_swap_value_usd :: real
  slippage_bps :: nat

text \<open>
  Modelled from the spec: the Range Selector \<^verbatim>\<open>selectRange\<close> (section 4.3), whose source
  \<^verbatim>\<open>range_selector.py\<close> is missing. It splits the width symmetrically around the current
  price and fails with \<^verbatim>\<open>InvalidRangeError\<close> when the width is not positive.
\<close>

datatype range_error = InvalidRangeError

definition selectRange :: "real \<Rightarrow> RebalanceConfig \<Rightarrow> range_error + real \<times> real" where
  "selectRange currentPrice config =
     (if range_width_pct config \<le> 0 then Inl InvalidRangeError
      else Inr (currentPrice * (1 - range_width_pct config / 200),
                currentPrice * (1 + range_width_pct config / 200)))"

text \<open>
  Modelled from the spec: the \<^verbatim>\<open>PositionSnapshot\<close> record that the Position Monitor hands to
  the Trigger Evaluator (section 3); the monitor's source is missing.
\<close>

record snapshot =
  mint_id :: string
  pool_id :: string
  currentTick :: int
  currentPrice :: real
  lowerTick :: int
  upperTick :: int
  lowerPrice :: real
  upperPrice :: real
  liquidityAmount :: nat
  feesOwedA :: nat
  feesOwedB :: nat
  inRange :: bool

text \<open>
  Modelled from the spec: the Trigger Evaluator \<^verbatim>\<open>evaluate\<close> (section 4.2), whose source is
  missing. \<open>NoDecision\<close> is the decision the specification calls \<^verbatim>\<open>None\<close>; the snapshot is
  \<open>None\<close> when no position is configured yet. Out-of-range is checked first; near-edge
  compares the distance to the nearer boundary, as a fraction of the width of the range,
  with the threshold.
\<close>

datatype Decision = NoDecision | OutOfRange | NearEdge

definition range_width :: "snapshot \<Rightarrow> real" where
  "range_width s = upperPrice s - lowerPrice s"

definition distance_to_nearer_boundary :: "snapshot \<Rightarrow> real" where
  "distance_to_nearer_boundary s =
     (if currentPrice s - lowerPrice s \<le> upperPrice s - currentPrice s
      then currentPrice s - lowerPrice s
      else upperPrice s - currentPrice s)"

definition evaluate :: "snapshot option \<Rightarrow> RebalanceConfig \<Rightarrow> Decision" where
  "evaluate snap config =
     (case snap of
        None \<Rightarrow> NoDecision
      | Some s \<Rightarrow>
          if \<not> inRange s \<and> out_of_range config then OutOfRange
          else if inRange s
                  \<and> distance_to_nearer_boundary s / range_width s \<le> edge_threshold_pct config / 100
          then NearEdge
          else NoDecision)"

text \<open>
  Modelled from the spec: the \<^verbatim>\<open>WorkflowState\<close> record of the State Store (section 3);
  the store's source is missing.
\<close>

datatype Step = StepNone | Withdraw | Swap | Open

record amounts =
  tokenA :: nat
  tokenB :: nat

record WorkflowState =
  current_position_mint :: "string option"
  last_rebalance :: "nat option"
  pending_rebalance :: bool
  pending_step :: Step
  withdrawn_amounts :: amounts

text \<open>
  Modelled from the spec: the collaborators of the Rebalance Workflow (sections 4.4
  and 6), whose sources are missing. Each field is the outcome of one step's call: the
  Executor's withdraw on a position mint, the swap computed from the withdrawn amounts
  (a skipped swap is a success), the pool price read again before opening, the
  Executor's open-position on a price range, and the clock.
\<close>

record collaborators =
  withdrawAll :: "string option \<Rightarrow> message + amounts"
  swap :: "RebalanceConfig \<Rightarrow> amounts \<Rightarrow> message + unit"
  price_now :: "message + real"
  openPosition :: "real \<Rightarrow> real \<Rightarrow> message + string"
  now :: nat

text \<open>
  What a run of the workflow leaves behind: the steps it executed, with what each was
  given, the steps it only logged (dry run), and the states it saved.
\<close>

datatype event =
    ExecWithdraw "string option"
  | ExecSwap amounts
  | ExecOpen
  | Logged Step
  | Saved WorkflowState

text \<open>
  Modelled from the spec: the transition protocol of the Rebalance Workflow (section
  4.4), whose source is missing. Each step is executed; on success the new state is saved
  and the next step follows; on failure the state is left as it is and the failure is
  reported.
\<close>

definition open_step ::
  "collaborators \<Rightarrow> RebalanceConfig \<Rightarrow> WorkflowState \<Rightarrow> event list \<times> (message + unit) \<times> WorkflowState" where
  "open_step x config st =
     (case price_now x of
        Inl m \<Rightarrow> ([ExecOpen], Inl m, st)
      | Inr p \<Rightarrow>
          (case selectRange p config of
             Inl e \<Rightarrow> ([ExecOpen], Inl ''InvalidRangeError'', st)
           | Inr (lower, upper) \<Rightarrow>
               (case openPosition x lower upper of
                  Inl m \<Rightarrow> ([ExecOpen], Inl m, st)
                | Inr new_mint \<Rightarrow>
                    (let st' = st \<lparr> current_position_mint := Some new_mint,
                                    last_rebalance := Some (now x),
                                    pending_step := StepNone,
                                    pending_rebalance := False \<rparr>
                     in ([ExecOpen, Saved st'], Inr (), st')))))"

definition swap_step ::
  "collaborators \<Rightarrow> RebalanceConfig \<Rightarrow> WorkflowState \<Rightarrow> event list \<times> (message + unit) \<times> WorkflowState" where
  "swap_step x config st =
     (case swap x config (withdrawn_amounts st) of
        Inl m \<Rightarrow> ([ExecSwap (withdrawn_amounts st)], Inl m, st)
      | Inr _ \<Rightarrow>
          (let st' = st \<lparr> pending_step := Open \<rparr> in
           case open_step x config st' of
             (es, r, st'') \<Rightarrow> (ExecSwap (withdrawn_amounts st) # Saved st' # es, r, st'')))"

definition withdraw_step ::
  "collaborators \<Rightarrow> RebalanceConfig \<Rightarrow> WorkflowState \<Rightarrow> event list \<times> (message + unit) \<times> WorkflowState" where
  "withdraw_step x config st =
     (case withdrawAll x (current_position_mint st) of
        Inl m \<Rightarrow> ([ExecWithdraw (current_position_mint st)], Inl m, st)
      | Inr a \<Rightarrow>
          (let st' = st \<lparr> withdrawn_amounts := a, pending_step := Swap,
                          current_position_mint := None \<rparr> in
           case swap_step x config st' of
             (es, r, st'') \<Rightarrow>
               (ExecWithdraw (current_position_mint st) # Saved st' # es, r, st'')))"

text \<open>Re-entering at the pending step.\<close>

definition resume ::
  "collaborators \<Rightarrow> RebalanceConfig \<Rightarrow> WorkflowState \<Rightarrow> event list \<times> (message + unit) \<times> WorkflowState" where
  "resume x config st =
     (case pending_step st of
        StepNone \<Rightarrow> ([], Inr (), st)
      | Withdraw \<Rightarrow> withdraw_step x config st
      | Swap \<Rightarrow> swap_step x config st
      | Open \<Rightarrow> open_step x config st)"

fun steps_from :: "Step \<Rightarrow> Step list" where
  "steps_from StepNone = []"
| "steps_from Withdraw = [Withdraw, Swap, Open]"
| "steps_from Swap = [Swap, Open]"
| "steps_from Open = [Open]"

text \<open>
  Modelled from the spec: the entry of the workflow (section 4.4). With a workflow in
  flight the invocation is a resume at the pending step; otherwise a decision other than
  \<open>NoDecision\<close>, or the force flag, starts a new workflow at the withdraw step. In a dry
  run the steps are logged, nothing is called and nothing is saved.
\<close>

definition run_workflow ::
  "collaborators \<Rightarrow> RebalanceConfig \<Rightarrow> Decision \<Rightarrow> bool \<Rightarrow> WorkflowState \<Rightarrow>
   event list \<times> (message + unit) \<times> WorkflowState" where
  "run_workflow x config decision force_rebalance st =
     (if pending_rebalance st then
        (if dry_run config then (map Logged (steps_from (pending_step st)), Inr (), st)
         else resume x config st)
      else if decision \<noteq> NoDecision \<or> force_rebalance then
        (if dry_run config then (map Logged (steps_from Withdraw), Inr (), st)
         else
           (let st' = st \<lparr> pending_rebalance := True, pending_step := Withdraw \<rparr> in
            case resume x config st' of (es, r, st'') \<Rightarrow> (Saved st' # es, r, st'')))
      else ([], Inr (), st))"

section \<open>Notions used to state the properties\<close>


text \<open>The text of the \<^verbatim>\<open>error\<close> field of a printed object, empty when there is none.\<close>

definition error_of :: "json \<Rightarrow> string" where
  "error_of j = (case field j ''error'' of Some (JString msg) \<Rightarrow> msg | _ \<Rightarrow> [])"

text \<open>
  A world in which every call succeeds, the position holds liquidity, the simulation
  passes and the transaction is never seen to confirm: every poll answers \<^verbatim>\<open>null\<close>.
\<close>

definition quiet_world :: world where
  "quiet_world =
     \<lparr> argv = [''Mint1'', ''90'', ''110'', ''1000''],
       SOLANA_PRIVATE_KEY = None,
       SOLANA_KEYPAIR_PATH = Some ''id.json'',
       readKeypairFile = (\<lambda>path. Inr [1, 2, 3]),
       createKeyPairSignerFromBytes = (\<lambda>bytes. Inr ''Signer1''),
       setPayerFromBytes = (\<lambda>bytes. Inr ()),
       setWhirlpoolsConfig = Inr (),
       getPositionAddress = (\<lambda>mint. Inr (''pda-'' @ mint)),
       fetchPosition = (\<lambda>a. Inr \<lparr> whirlpool = ''Pool1'', tickLowerIndex = - 64, tickUpperIndex = 64,
                                   liquidity = 5000, feeOwedA = 1, feeOwedB = 2 \<rparr>),
       fetchWhirlpool = (\<lambda>a. Inr \<lparr> sqrtPrice = 7, tokenMintA = ''MintA'', tokenMintB = ''MintB'',
                                    tickSpacing = 64, tickCurrentIndex = 0, pool_liquidity = 9,
                                    feeRate = 3000 \<rparr>),
       getAccountInfo = (\<lambda>mint. Inr None),
       sqrtPriceToPrice = (\<lambda>s a b. case (a, b) of (Some x, Some y) \<Rightarrow> Number (real (s + 100 * x + y)) | _ \<Rightarrow> NaN),
       tickIndexToPrice = (\<lambda>t a b. Number (real_of_int t)),
       number_toString = (\<lambda>x. case x of Number r \<Rightarrow> bigint_toString (nat \<lfloor>r\<rfloor>) | _ \<Rightarrow> ''NaN''),
       closePositionInstructions = (\<lambda>mint slippageBps signer.
         Inr \<lparr> quote_tokenEstA = 10, quote_tokenEstB = 20, feesQuote_feeOwedA = 1,
               feesQuote_feeOwedB = 2, rewardsQuote_rewards = [] \<rparr>),
       getLatestBlockhash = Inr ''Hash1'',
       signTransaction = Inr \<lparr> signature = ''Sig1'', txBase64 = ''AQID'' \<rparr>,
       simulateTransaction = Inr None,
       sendTransaction = Inr (),
       getSignatureStatuses = (\<lambda>i. Inr None),
       parseFloat = (\<lambda>s. if s = ''90'' then Number 90 else if s = ''110'' then Number 110 else NaN),
       BigInt = (\<lambda>s. if s = ''1000'' then Some 1000 else None),
       openConcentratedPosition = (\<lambda>pool param lowerPrice upperPrice slippageBps.
         Inr \<lparr> open_tokenEstA = 1000, open_tokenEstB = 90000, open_liquidityDelta = 77,
               open_positionMint = ''Mint2'' \<rparr>),
       callback = Inr ''Sig2'' \<rparr>"


text \<open>The quiet world, but the first poll shows that the transaction failed on chain.\<close>

definition failing_world :: world where
  "failing_world =
     quiet_world \<lparr> getSignatureStatuses :=
       (\<lambda>i. Inr (Some \<lparr> err = Some ''InsufficientFunds'', confirmationStatus = None \<rparr>)) \<rparr>"


text \<open>
  The quiet world, but both mint accounts exist: the byte at offset 44 is 5 for the mint
  of token A and 8 for the mint of token B.
\<close>

definition minted_world :: world where
  "minted_world =
     quiet_world \<lparr> getAccountInfo :=
       (\<lambda>mint. Inr (Some (replicate 44 0 @ [if mint = ''MintA'' then 5 else 8]))) \<rparr>"

text \<open>
  For the orchestrator: collaborators whose calls all succeed, a configuration, a state
  saved after a successful withdraw, and a snapshot whose price sits exactly at the
  near-edge threshold of that configuration.
\<close>

definition steady_collaborators :: collaborators where
  "steady_collaborators =
     \<lparr> withdrawAll = (\<lambda>m. Inr \<lparr> tokenA = 1, tokenB = 2 \<rparr>),
       swap = (\<lambda>config a. Inr ()),
       price_now = Inr 115,
       openPosition = (\<lambda>lower upper. Inr ''Mint2''),
       now = 1700000000 \<rparr>"

definition example_config :: RebalanceConfig where
  "example_config =
     \<lparr> pool_address = ''Pool1'', position_mint = None, check_interval_seconds = 60,
       out_of_range = True, edge_threshold_pct = 10, range_width_pct = 10,
       target_sol_pct = 50, dry_run = False, min_swap_value_usd = 1, slippage_bps = 100 \<rparr>"

definition interrupted_state :: WorkflowState where
  "interrupted_state =
     \<lparr> current_position_mint = None, last_rebalance = None, pending_rebalance = True,
       pending_step = Swap, withdrawn_amounts = \<lparr> tokenA = 10, tokenB = 20 \<rparr> \<rparr>"

definition edge_snapshot :: snapshot where
  "edge_snapshot =
     \<lparr> mint_id = ''Mint1'', pool_id = ''Pool1'', currentTick = 0, currentPrice = 92,
       lowerTick = - 64, upperTick = 64, lowerPrice = 90, upperPrice = 110,
       liquidityAmount = 5000, feesOwedA = 0, feesOwedB = 0, inRange = True \<rparr>"

section \<open>Properties of the Base58 decoders\<close>

text \<open>
  The numbers of the decoder stay small: every element of \<^verbatim>\<open>bytes\<close> is a byte and every
  carry handed on is below 256, so \<^verbatim>\<open>carry + bytes[j] * 58\<close> never exceeds 15045 and the
  32-bit operators \<^verbatim>\<open>&\<close> and \<^verbatim>\<open>>>\<close> of JavaScript act as here on \<open>nat\<close>.
\<close>

lemma ALPHABET_MAP_range: "withdraw_ALPHABET_MAP c = Some v \<Longrightarrow> v < 58"
  by (simp add: withdraw_ALPHABET_MAP_def withdraw_ALPHABET_def split: if_splits)

lemma and_255_byte: "(n::nat) AND 0xff < 256"
proof -
  have "n AND 255 = take_bit 8 n" by (simp add: take_bit_eq_mask mask_eq_exp_minus_1)
  then show ?thesis by (simp add: take_bit_eq_mod)
qed

lemma multiply_range:
  assumes "list_all (\<lambda>b. b < 256) bytes" "carry < 256"
  shows "list_all (\<lambda>b. b < 256) (fst (withdraw_multiply j bytes carry))
     \<and> snd (withdraw_multiply j bytes carry) < 256"
  using assms
proof (induction j bytes carry rule: withdraw_multiply.induct)
  case (1 j bytes carry)
  show ?case
  proof (cases "j < length bytes")
    case False
    with 1 show ?thesis by (subst (1 2) withdraw_multiply.simps) simp
  next
    case True
    with "1.prems" have b: "bytes ! j < 256" by (simp add: list_all_length)
    have c: "drop_bit 8 (carry + bytes ! j * 58) < 256"
      using b "1.prems"(2) by (simp add: drop_bit_eq_div)
    have l: "list_all (\<lambda>b. b < 256) (bytes[j := (carry + bytes ! j * 58) AND 0xff])"
      using "1.prems"(1) and_255_byte[of "carry + bytes ! j * 58"] True
      by (auto simp: list_all_length nth_list_update)
    from "1.IH"[OF True refl l c] True show ?thesis
      by (subst (1 2) withdraw_multiply.simps) (simp add: Let_def)
  qed
qed

lemma push_carry_range:
  "list_all (\<lambda>b. b < 256) bytes \<Longrightarrow> list_all (\<lambda>b. b < 256) (withdraw_push_carry bytes carry)"
proof (induction bytes carry rule: withdraw_push_carry.induct)
  case (1 bytes carry)
  show ?case
  proof (cases "carry > 0")
    case False
    with 1 show ?thesis by (subst withdraw_push_carry.simps) simp
  next
    case True
    have "list_all (\<lambda>b. b < 256) (bytes @ [carry AND 0xff])"
      using "1.prems" and_255_byte[of carry] by simp
    from "1.IH"[OF True this] True show ?thesis
      by (subst withdraw_push_carry.simps) simp
  qed
qed

lemma decode_chars_range:
  "list_all (\<lambda>b. b < 256) bytes \<Longrightarrow> withdraw_decode_chars encoded bytes = Inr bytes' \<Longrightarrow>
   list_all (\<lambda>b. b < 256) bytes'"
proof (induction encoded arbitrary: bytes)
  case Nil
  then show ?case by simp
next
  case (Cons c encoded)
  from Cons.prems(2) obtain v where v: "withdraw_ALPHABET_MAP c = Some v"
    by (cases "withdraw_ALPHABET_MAP c") simp_all
  then have "v < 256" using ALPHABET_MAP_range[OF v] by simp
  from multiply_range[OF Cons.prems(1) this, of 0]
  have "list_all (\<lambda>b. b < 256)
      (withdraw_push_carry (fst (withdraw_multiply 0 bytes v)) (snd (withdraw_multiply 0 bytes v)))"
    by (intro push_carry_range) simp
  from Cons.IH[OF this] Cons.prems(2) v show ?case
    by (simp split: prod.splits)
qed

lemma ALPHABET_MAP_eq: "withdraw_ALPHABET_MAP = open_ALPHABET_MAP"
  by (simp add: withdraw_ALPHABET_MAP_def open_ALPHABET_MAP_def
      withdraw_ALPHABET_def open_ALPHABET_def)

lemma multiply_eq: "withdraw_multiply j bytes carry = open_multiply j bytes carry"
proof (induction j bytes carry rule: withdraw_multiply.induct)
  case (1 j bytes carry)
  show ?case
  proof (cases "j < length bytes")
    case True
    with 1 show ?thesis
      by (subst withdraw_multiply.simps, subst open_multiply.simps) (simp add: Let_def)
  next
    case False
    then show ?thesis
      by (subst withdraw_multiply.simps, subst open_multiply.simps) simp
  qed
qed

lemma push_carry_eq: "withdraw_push_carry bytes carry = open_push_carry bytes carry"
proof (induction bytes carry rule: withdraw_push_carry.induct)
  case (1 bytes carry)
  show ?case
  proof (cases "carry > 0")
    case True
    with 1 show ?thesis
      by (subst withdraw_push_carry.simps, subst open_push_carry.simps) simp
  next
    case False
    then show ?thesis
      by (subst withdraw_push_carry.simps, subst open_push_carry.simps) simp
  qed
qed

lemma decode_chars_eq: "withdraw_decode_chars encoded bytes = open_decode_chars encoded bytes"
  by (induction encoded arbitrary: bytes)
     (simp_all add: ALPHABET_MAP_eq multiply_eq push_carry_eq split: option.splits prod.splits)

lemma leading_zeros_eq: "withdraw_leading_zeros encoded bytes = open_leading_zeros encoded bytes"
  by (induction encoded arbitrary: bytes) simp_all

text \<open>
  Claim C10. The two copies of \<^verbatim>\<open>decodeBase58\<close> are extensionally equal: on every input
  string they return the same byte array, or both throw, for the same invalid character.
\<close>

theorem decodeBase58_copies_equal: "withdraw_decodeBase58 encoded = open_decodeBase58 encoded"
  by (simp add: withdraw_decodeBase58_def open_decodeBase58_def decode_chars_eq leading_zeros_eq
      split: sum.splits)

section \<open>Properties of the executor scripts\<close>

subsection \<open>Calls and results\<close>

lemma attemptE:
  assumes "attempt es r k = (es', e)"
  obtains (threw) m where "r = Inl m" "es' = es" "e = Thrown m"
        | (went_on) x es'' where "r = Inr x" "k x = (es'', e)" "es' = es @ es''"
  using assms by (cases r; cases "k (projr r)") (auto simp: attempt_def)

lemma attempt_Inl [simp]: "attempt es (Inl m) k = (es, Thrown m)"
  by (simp add: attempt_def)

lemma attempt_Inr [simp]: "attempt es (Inr x) k = (es @ fst (k x), snd (k x))"
  by (simp add: attempt_def split: prod.splits)

lemma field_WithdrawError [simp]:
  "field (WithdrawError msg pm) ''success'' = Some (JBool False)"
  "field (WithdrawError msg pm) ''error'' = Some (JString msg)"
  "field (WithdrawError msg pm) ''positionMint'' = Some (JString pm)"
  "field (WithdrawError msg pm) ''step'' = None"
  by (simp_all add: WithdrawError_def)

lemma error_of_simps [simp]:
  "error_of (WithdrawError msg pm) = msg"
  "error_of (OpenPositionError msg) = msg"
  by (simp_all add: error_of_def WithdrawError_def OpenPositionError_def)

lemma field_WithdrawResult [simp]:
  "field (WithdrawResult pm c txid) ''success'' = Some (JBool True)"
  by (simp add: WithdrawResult_def)

lemma field_OpenPositionResult [simp]:
  "field (OpenPositionResult p lo hi txid) ''success'' = Some (JBool True)"
  by (simp add: OpenPositionResult_def)

lemma field_OpenPositionError [simp]:
  "field (OpenPositionError msg) ''success'' = Some (JBool False)"
  "field (OpenPositionError msg) ''error'' = Some (JString msg)"
  "field (OpenPositionError msg) ''positionMint'' = None"
  "field (OpenPositionError msg) ''step'' = None"
  by (simp_all add: OpenPositionError_def)

subsection \<open>The confirmation loops\<close>

lemma count_replicate_polls [simp]:
  "count_list (concat (replicate k [Sleep 2000, GetSignatureStatuses])) GetSignatureStatuses = k"
  "count_list (concat (replicate k [Sleep 2000, GetSignatureStatuses])) (Sleep 2000) = k"
  by (induction k) simp_all



lemma withdraw_confirm_failed:
  "i < n \<Longrightarrow> getSignatureStatuses w i = Inr (Some st) \<Longrightarrow> err st = Some e \<Longrightarrow>
   withdraw_confirm w n i = ([Sleep 2000, GetSignatureStatuses], TransactionFailed e)"
  by (subst withdraw_confirm.simps) simp



lemma open_confirm_failed:
  "i < n \<Longrightarrow> getSignatureStatuses w i = Inr (Some st) \<Longrightarrow> err st = Some e \<Longrightarrow>
   open_confirm w n i = ([Sleep 2000, GetSignatureStatuses], TransactionFailed e)"
  by (subst open_confirm.simps) simp

subsection \<open>The withdraw-all script\<close>

lemma withdraw_main_of_try:
  assumes "truthy (arg w 0)" "withdraw_try w (the (arg w 0)) = (es, e)"
  shows "withdraw_main w =
     (case e of
        Thrown m \<Rightarrow> Run es (Some (WithdrawError m (the (arg w 0)))) 1
      | Exited j code \<Rightarrow> Run es (Some j) code
      | Completed j \<Rightarrow> Run es (Some j) 0)"
  using assms by (cases e) (simp_all add: withdraw_main_def)

lemma withdraw_main_usage:
  "\<not> truthy (arg w 0) \<Longrightarrow>
   withdraw_main w = Run [] (Some (WithdrawError ''Usage: node withdraw-all.js <POSITION_MINT>'' [])) 1"
  by (simp add: withdraw_main_def)

text \<open>How the try block of withdraw-all can end, and what it has done by then.\<close>

lemma withdraw_try_Exited:
  assumes "withdraw_try w pm = (es, Exited j code)"
  shows "code = 1 \<and> j = WithdrawError (error_of j) pm"
  using assms unfolding withdraw_try_def withdraw_submit_def
  by (auto elim!: attemptE split: if_splits option.splits prod.splits confirmation.splits)

lemma withdraw_try_Completed:
  assumes "withdraw_try w pm = (es, Completed j)"
  shows "field j ''success'' = Some (JBool True)"
  using assms unfolding withdraw_try_def withdraw_submit_def
  by (auto elim!: attemptE split: if_splits option.splits prod.splits confirmation.splits)




subsection \<open>The open-position script\<close>

lemma open_try_Exited:
  assumes "open_try w a lo hi amt b = (es, Exited j code)"
  shows "code = 1 \<and> j = OpenPositionError (error_of j)"
  using assms unfolding open_try_def
  by (auto elim!: attemptE split: prod.splits confirmation.splits)

lemma open_try_Completed:
  assumes "open_try w a lo hi amt b = (es, Completed j)"
  shows "field j ''success'' = Some (JBool True)"
  using assms unfolding open_try_def
  by (auto elim!: attemptE split: prod.splits confirmation.splits)




lemma open_main_of_try:
  assumes "\<not> length (argv w) < 4" "BigInt w (argv w ! 3) = Some amt"
    "\<not> (isNaN (parseFloat w (argv w ! 1)) \<or> isNaN (parseFloat w (argv w ! 2))
        \<or> number_ge (parseFloat w (argv w ! 1)) (parseFloat w (argv w ! 2)))"
    "open_try w (argv w ! 0) (parseFloat w (argv w ! 1)) (parseFloat w (argv w ! 2)) amt
       (''--token-b'' \<in> set (argv w)) = (es, e)"
  shows "open_main w =
     (case e of
        Thrown m \<Rightarrow> Run es (Some (OpenPositionError m)) 1
      | Exited j code \<Rightarrow> Run es (Some j) code
      | Completed j \<Rightarrow> Run es (Some j) 0)"
  using assms by (cases e) (simp_all add: open_main_def Let_def)

text \<open>The other ways \<^verbatim>\<open>main\<close> of open-position ends: before the \<^verbatim>\<open>try\<close> block.\<close>

lemma open_main_early:
  assumes "length (argv w) < 4 \<or> BigInt w (argv w ! 3) = None
     \<or> isNaN (parseFloat w (argv w ! 1)) \<or> isNaN (parseFloat w (argv w ! 2))
     \<or> number_ge (parseFloat w (argv w ! 1)) (parseFloat w (argv w ! 2))"
  shows "effects (open_main w) = [] \<and> exit_code (open_main w) = 1
     \<and> (stdout (open_main w) = None
         \<or> stdout (open_main w) = Some (OpenPositionError (error_of (the (stdout (open_main w))))))"
  using assms by (auto simp: open_main_def printUsage_def Let_def split: option.splits)

subsection \<open>Runs in the example worlds\<close>






lemma failing_withdraw:
  "withdraw_main failing_world =
     Run [FetchPosition, ClosePositionInstructions, GetLatestBlockhash, SimulateTransaction,
          SendTransaction, Sleep 2000, GetSignatureStatuses]
       (Some (WithdrawError ''Transaction failed: InsufficientFunds'' ''Mint1'')) 1"
proof -
  have "withdraw_confirm failing_world 30 0 =
      ([Sleep 2000, GetSignatureStatuses], TransactionFailed ''InsufficientFunds'')"
    using withdraw_confirm_failed[of 0 _ failing_world
        "\<lparr> err = Some ''InsufficientFunds'', confirmationStatus = None \<rparr>" "''InsufficientFunds''"]
    by (simp add: failing_world_def)
  then show ?thesis
    by (simp add: withdraw_main_def withdraw_try_def withdraw_submit_def withdraw_loadKeypair_def
        arg_def failing_world_def quiet_world_def)
qed

lemma failing_open:
  "open_main failing_world =
     Run [OpenConcentratedPosition, Callback, Sleep 2000, GetSignatureStatuses]
       (Some (OpenPositionError ''Transaction failed: InsufficientFunds'')) 1"
proof -
  have "open_confirm failing_world 15 0 =
      ([Sleep 2000, GetSignatureStatuses], TransactionFailed ''InsufficientFunds'')"
    using open_confirm_failed[of 0 _ failing_world
        "\<lparr> err = Some ''InsufficientFunds'', confirmationStatus = None \<rparr>" "''InsufficientFunds''"]
    by (simp add: failing_world_def)
  then show ?thesis
    by (simp add: open_main_def open_try_def loadKeypairBytes_def failing_world_def
        quiet_world_def Let_def)
qed

section \<open>Claims about the executor scripts\<close>






lemma open_main_cases:
  obtains (early) "effects (open_main w) = []" "exit_code (open_main w) = 1"
      "stdout (open_main w) = None
       \<or> stdout (open_main w) = Some (OpenPositionError (error_of (the (stdout (open_main w)))))"
  | (tried) a lo hi amt b es e where "open_try w a lo hi amt b = (es, e)"
      "open_main w =
         (case e of
            Thrown m \<Rightarrow> Run es (Some (OpenPositionError m)) 1
          | Exited j code \<Rightarrow> Run es (Some j) code
          | Completed j \<Rightarrow> Run es (Some j) 0)"
proof (cases "length (argv w) < 4 \<or> BigInt w (argv w ! 3) = None
     \<or> isNaN (parseFloat w (argv w ! 1)) \<or> isNaN (parseFloat w (argv w ! 2))
     \<or> number_ge (parseFloat w (argv w ! 1)) (parseFloat w (argv w ! 2))")
  case True
  from open_main_early[OF True] show ?thesis by (intro early) simp_all
next
  case False
  then obtain amt where amt: "BigInt w (argv w ! 3) = Some amt" by auto
  obtain es e where r:
    "open_try w (argv w ! 0) (parseFloat w (argv w ! 1)) (parseFloat w (argv w ! 2)) amt
       (''--token-b'' \<in> set (argv w)) = (es, e)"
    by (cases "open_try w (argv w ! 0) (parseFloat w (argv w ! 1)) (parseFloat w (argv w ! 2))
       amt (''--token-b'' \<in> set (argv w))")
  from False have "\<not> length (argv w) < 4"
    "\<not> (isNaN (parseFloat w (argv w ! 1)) \<or> isNaN (parseFloat w (argv w ! 2))
        \<or> number_ge (parseFloat w (argv w ! 1)) (parseFloat w (argv w ! 2)))"
    by simp_all
  from open_main_of_try[OF this(1) amt this(2) r] r show ?thesis by (rule tried[rotated])
qed








text \<open>
  Claim C7, as amended. withdraw-all always prints one JSON object whose \<^verbatim>\<open>success\<close> field
  tells success from failure; on failure the object is a \<^verbatim>\<open>WithdrawError\<close>: success false,
  an error message, and the position mint given on the command line (empty when it was
  missing). Whatever open-position prints has a \<^verbatim>\<open>success\<close> field that tells success from
  failure too, but its failure object is an \<^verbatim>\<open>OpenPositionError\<close>: success false and an
  error message only, without a position mint. Neither failure object has a field naming
  the step.
\<close>

theorem failure_results:
  "(\<exists>j. stdout (withdraw_main w) = Some j
       \<and> field j ''success'' = Some (JBool (exit_code (withdraw_main w) = 0))
       \<and> (exit_code (withdraw_main w) \<noteq> 0 \<longrightarrow>
            j = WithdrawError (error_of j) (if truthy (arg w 0) then the (arg w 0) else [])
            \<and> field j ''positionMint''
                = Some (JString (if truthy (arg w 0) then the (arg w 0) else []))
            \<and> field j ''step'' = None))
   \<and> (\<forall>j. stdout (open_main w) = Some j \<longrightarrow>
         field j ''success'' = Some (JBool (exit_code (open_main w) = 0))
         \<and> (exit_code (open_main w) \<noteq> 0 \<longrightarrow>
              j = OpenPositionError (error_of j)
              \<and> field j ''positionMint'' = None
              \<and> field j ''step'' = None))"
proof (rule conjI)
  show "\<exists>j. stdout (withdraw_main w) = Some j
       \<and> field j ''success'' = Some (JBool (exit_code (withdraw_main w) = 0))
       \<and> (exit_code (withdraw_main w) \<noteq> 0 \<longrightarrow>
            j = WithdrawError (error_of j) (if truthy (arg w 0) then the (arg w 0) else [])
            \<and> field j ''positionMint''
                = Some (JString (if truthy (arg w 0) then the (arg w 0) else []))
            \<and> field j ''step'' = None)"
  proof (cases "truthy (arg w 0)")
    case False
    then show ?thesis by (simp add: withdraw_main_usage)
  next
    case True
    obtain es e where r: "withdraw_try w (the (arg w 0)) = (es, e)"
      by (cases "withdraw_try w (the (arg w 0))")
    note m = withdraw_main_of_try[OF True r]
    show ?thesis
    proof (cases e)
      case (Thrown msg)
      with True show ?thesis by (simp add: m)
    next
      case (Exited j code)
      from withdraw_try_Exited[OF r[unfolded Exited]]
      have c: "code = 1" and j: "j = WithdrawError (error_of j) (the (arg w 0))" by simp_all
      have "field j ''success'' = Some (JBool False)"
        "field j ''positionMint'' = Some (JString (the (arg w 0)))" "field j ''step'' = None"
        by (subst j, simp)+
      with True Exited c j show ?thesis by (simp add: m)
    next
      case (Completed j)
      from withdraw_try_Completed[OF r[unfolded Completed]] True Completed show ?thesis
        by (simp add: m)
    qed
  qed
next
  show "\<forall>j. stdout (open_main w) = Some j \<longrightarrow>
         field j ''success'' = Some (JBool (exit_code (open_main w) = 0))
         \<and> (exit_code (open_main w) \<noteq> 0 \<longrightarrow>
              j = OpenPositionError (error_of j)
              \<and> field j ''positionMint'' = None
              \<and> field j ''step'' = None)"
  proof (cases w rule: open_main_cases)
    case early
    show ?thesis
    proof (intro allI impI)
      fix j assume s: "stdout (open_main w) = Some j"
      with early(3) have j: "j = OpenPositionError (error_of j)" by simp
      have "field j ''success'' = Some (JBool False)"
        "field j ''positionMint'' = None" "field j ''step'' = None"
        by (subst j, simp)+
      with early(2) j show "field j ''success'' = Some (JBool (exit_code (open_main w) = 0))
         \<and> (exit_code (open_main w) \<noteq> 0 \<longrightarrow>
              j = OpenPositionError (error_of j)
              \<and> field j ''positionMint'' = None
              \<and> field j ''step'' = None)" by simp
    qed
  next
    case (tried a lo hi amt b es e)
    show ?thesis
    proof (cases e)
      case (Thrown msg)
      then show ?thesis by (simp add: tried(2))
    next
      case (Exited j code)
      from open_try_Exited[OF tried(1)[unfolded Exited]]
      have c: "code = 1" and j: "j = OpenPositionError (error_of j)" by simp_all
      have "field j ''success'' = Some (JBool False)"
        "field j ''positionMint'' = None" "field j ''step'' = None"
        by (subst j, simp)+
      with Exited c j show ?thesis by (simp add: tried(2))
    next
      case (Completed j)
      from open_try_Completed[OF tried(1)[unfolded Completed]] Completed show ?thesis
        by (simp add: tried(2))
    qed
  qed
qed

theorem failure_results_witness:
  "exit_code (withdraw_main failing_world) \<noteq> 0
   \<and> stdout (withdraw_main failing_world) =
       Some (WithdrawError ''Transaction failed: InsufficientFunds'' ''Mint1'')
   \<and> field (the (stdout (withdraw_main failing_world))) ''positionMint''
       = Some (JString ''Mint1'')
   \<and> exit_code (open_main failing_world) \<noteq> 0
   \<and> stdout (open_main failing_world) =
       Some (OpenPositionError ''Transaction failed: InsufficientFunds'')
   \<and> the (stdout (open_main failing_world))
       = OpenPositionError (error_of (the (stdout (open_main failing_world))))"
  using failure_results[of failing_world]
  by (simp add: failing_withdraw failing_open)

theorem failure_results_counterexample:
  "exit_code (open_main failing_world) = 1
   \<and> stdout (open_main failing_world) =
       Some (JObject [(''success'', JBool False),
                      (''error'', JString ''Transaction failed: InsufficientFunds'')])
   \<and> field (the (stdout (open_main failing_world))) ''positionMint'' = None
   \<and> field (the (stdout (open_main failing_world))) ''step'' = None
   \<and> field (the (stdout (withdraw_main failing_world))) ''step'' = None"
  by (simp add: failing_open failing_withdraw) (simp add: OpenPositionError_def)

section \<open>Claims about the fetch scripts\<close>

lemma fetch_position_main_of_body:
  assumes "truthy (arg w 0)" "fetch_position_body w (the (arg w 0)) = (es, e)"
  shows "fetch_position_main w =
     (case e of
        Thrown m \<Rightarrow> Run (es @ [Stderr (''Error: '' @ m)]) None 1
      | Exited j code \<Rightarrow> Run es (Some j) code
      | Completed j \<Rightarrow> Run es (Some j) 0)"
  using assms by (cases e) (simp_all add: fetch_position_main_def)

lemma field_PositionSnapshot [simp]:
  "field (PositionSnapshot w pm a position pool cp lp up r) ''lowerTick''
     = Some (JInt (tickLowerIndex position))"
  "field (PositionSnapshot w pm a position pool cp lp up r) ''upperTick''
     = Some (JInt (tickUpperIndex position))"
  "field (PositionSnapshot w pm a position pool cp lp up r) ''currentTick''
     = Some (JInt (tickCurrentIndex pool))"
  "field (PositionSnapshot w pm a position pool cp lp up r) ''inRange'' = Some (JBool r)"
  "field (PositionSnapshot w pm a position pool cp lp up r) ''currentPrice''
     = Some (JString (number_toString w cp))"
  by (simp_all add: PositionSnapshot_def)

text \<open>Whatever the body of fetch-position prints is a snapshot with the flag computed from its ticks.\<close>

lemma fetch_position_body_Completed:
  assumes "fetch_position_body w pm = (es, Completed j)"
  shows "\<exists>lower upper current.
          field j ''lowerTick'' = Some (JInt lower)
        \<and> field j ''upperTick'' = Some (JInt upper)
        \<and> field j ''currentTick'' = Some (JInt current)
        \<and> field j ''inRange'' = Some (JBool (lower \<le> current \<and> current < upper))"
  using assms unfolding fetch_position_body_def
  by (auto elim!: attemptE simp: Let_def)

lemma fetch_position_body_not_Exited: "fetch_position_body w pm \<noteq> (es, Exited j code)"
  unfolding fetch_position_body_def
  by (auto elim!: attemptE simp: Let_def)

text \<open>
  Claim C3. Every snapshot that fetch-position prints carries the lower, upper and
  current tick, and its \<^verbatim>\<open>inRange\<close> flag is true exactly when the lower tick is at most
  the current tick and the current tick is below the upper tick. When all reads
  succeed, the ticks are those of the position and of its pool.
\<close>

theorem in_range_computation:
  "(\<forall>j. stdout (fetch_position_main w) = Some j \<longrightarrow>
      (\<exists>lower upper current.
          field j ''lowerTick'' = Some (JInt lower)
        \<and> field j ''upperTick'' = Some (JInt upper)
        \<and> field j ''currentTick'' = Some (JInt current)
        \<and> field j ''inRange'' = Some (JBool (lower \<le> current \<and> current < upper))))
   \<and> (truthy (arg w 0) \<and> setWhirlpoolsConfig w = Inr ()
        \<and> getPositionAddress w (the (arg w 0)) = Inr positionAddress
        \<and> fetchPosition w positionAddress = Inr position
        \<and> fetchWhirlpool w (whirlpool position) = Inr pool
        \<and> fetchTokenDecimals w (tokenMintA pool) = Inr decimalsA
        \<and> fetchTokenDecimals w (tokenMintB pool) = Inr decimalsB \<longrightarrow>
       (\<exists>j. stdout (fetch_position_main w) = Some j
          \<and> field j ''lowerTick'' = Some (JInt (tickLowerIndex position))
          \<and> field j ''upperTick'' = Some (JInt (tickUpperIndex position))
          \<and> field j ''currentTick'' = Some (JInt (tickCurrentIndex pool))
          \<and> field j ''inRange''
              = Some (JBool (tickLowerIndex position \<le> tickCurrentIndex pool
                             \<and> tickCurrentIndex pool < tickUpperIndex position))))"
proof (intro conjI allI impI)
  fix j assume s: "stdout (fetch_position_main w) = Some j"
  then have t: "truthy (arg w 0)"
    by (cases "truthy (arg w 0)") (simp_all add: fetch_position_main_def)
  obtain es e where r: "fetch_position_body w (the (arg w 0)) = (es, e)"
    by (cases "fetch_position_body w (the (arg w 0))")
  have "e = Completed j"
  proof (cases e)
    case (Thrown m)
    with s show ?thesis by (simp add: fetch_position_main_of_body[OF t r])
  next
    case (Exited j' code)
    with r fetch_position_body_not_Exited[of w "the (arg w 0)" es j' code] show ?thesis
      by blast
  next
    case (Completed j')
    with s show ?thesis by (simp add: fetch_position_main_of_body[OF t r])
  qed
  from r have "fetch_position_body w (the (arg w 0)) = (es, Completed j)"
    by (simp add: \<open>e = Completed j\<close>)
  then show "\<exists>lower upper current.
          field j ''lowerTick'' = Some (JInt lower)
        \<and> field j ''upperTick'' = Some (JInt upper)
        \<and> field j ''currentTick'' = Some (JInt current)
        \<and> field j ''inRange'' = Some (JBool (lower \<le> current \<and> current < upper))"
    by (rule fetch_position_body_Completed)
next
  assume "truthy (arg w 0) \<and> setWhirlpoolsConfig w = Inr ()
        \<and> getPositionAddress w (the (arg w 0)) = Inr positionAddress
        \<and> fetchPosition w positionAddress = Inr position
        \<and> fetchWhirlpool w (whirlpool position) = Inr pool
        \<and> fetchTokenDecimals w (tokenMintA pool) = Inr decimalsA
        \<and> fetchTokenDecimals w (tokenMintB pool) = Inr decimalsB"
  then show "\<exists>j. stdout (fetch_position_main w) = Some j
          \<and> field j ''lowerTick'' = Some (JInt (tickLowerIndex position))
          \<and> field j ''upperTick'' = Some (JInt (tickUpperIndex position))
          \<and> field j ''currentTick'' = Some (JInt (tickCurrentIndex pool))
          \<and> field j ''inRange''
              = Some (JBool (tickLowerIndex position \<le> tickCurrentIndex pool
                             \<and> tickCurrentIndex pool < tickUpperIndex position))"
    by (simp add: fetch_position_main_def fetch_position_body_def Let_def)
qed

lemma quiet_decimals: "fetchTokenDecimals quiet_world m = Inr (Some 6)"
  by (simp add: fetchTokenDecimals_def quiet_world_def)

lemma quiet_fetch_position:
  "fetch_position_main quiet_world =
     Run [FetchPosition, FetchWhirlpool, GetAccountInfo, GetAccountInfo]
       (Some (PositionSnapshot quiet_world ''Mint1'' ''pda-Mint1''
          \<lparr> whirlpool = ''Pool1'', tickLowerIndex = - 64, tickUpperIndex = 64,
            liquidity = 5000, feeOwedA = 1, feeOwedB = 2 \<rparr>
          \<lparr> sqrtPrice = 7, tokenMintA = ''MintA'', tokenMintB = ''MintB'',
            tickSpacing = 64, tickCurrentIndex = 0, pool_liquidity = 9, feeRate = 3000 \<rparr>
          (Number 613) (Number (- 64)) (Number 64) True)) 0"
  by (simp add: fetch_position_main_def fetch_position_body_def quiet_decimals Let_def arg_def)
     (simp add: quiet_world_def)

theorem in_range_computation_witness:
  "stdout (fetch_position_main quiet_world) \<noteq> None
   \<and> field (the (stdout (fetch_position_main quiet_world))) ''lowerTick'' = Some (JInt (- 64))
   \<and> field (the (stdout (fetch_position_main quiet_world))) ''upperTick'' = Some (JInt 64)
   \<and> field (the (stdout (fetch_position_main quiet_world))) ''currentTick'' = Some (JInt 0)
   \<and> field (the (stdout (fetch_position_main quiet_world))) ''inRange'' = Some (JBool True)"
  using in_range_computation[of quiet_world]
  by (simp add: quiet_fetch_position)

lemma field_PoolInfo [simp]:
  "field (PoolInfo w a p cp) ''currentPrice'' = Some (JString (number_toString w cp))"
  "field (PoolInfo w a p cp) ''mintA'' = Some (JString (tokenMintA p))"
  "field (PoolInfo w a p cp) ''mintB'' = Some (JString (tokenMintB p))"
  by (simp_all add: PoolInfo_def)

lemma fetch_pool_effects: "set (effects (fetch_pool_main w)) \<subseteq> {FetchWhirlpool}"
proof (cases "truthy (arg w 0)")
  case False
  then show ?thesis by (simp add: fetch_pool_main_def)
next
  case True
  obtain es e where r: "fetch_pool_try w (the (arg w 0)) = (es, e)"
    by (cases "fetch_pool_try w (the (arg w 0))")
  then have "set es \<subseteq> {FetchWhirlpool}"
    unfolding fetch_pool_try_def by (auto elim!: attemptE simp: Let_def)
  with True r show ?thesis
    by (cases e) (simp_all add: fetch_pool_main_def)
qed

text \<open>
  Claim C8. fetch-pool computes the current price as
  \<^verbatim>\<open>sqrtPriceToPrice(sqrtPrice, 9, 6)\<close> whatever the token mints of the pool are, and never
  reads a mint account. fetch-position computes it with the decimals that
  \<^verbatim>\<open>fetchTokenDecimals\<close> reads for the two mints of the pool: 6 when the mint account is
  missing, else the byte at offset 44 of the account data.
\<close>

theorem price_decimals:
  "(truthy (arg w 0) \<and> setWhirlpoolsConfig w = Inr ()
      \<and> fetchWhirlpool w (the (arg w 0)) = Inr p \<longrightarrow>
      (\<exists>j. stdout (fetch_pool_main w) = Some j
         \<and> field j ''mintA'' = Some (JString (tokenMintA p))
         \<and> field j ''mintB'' = Some (JString (tokenMintB p))
         \<and> field j ''currentPrice''
             = Some (JString (number_toString w
                  (sqrtPriceToPrice w (sqrtPrice p) (Some 9) (Some 6))))))
   \<and> GetAccountInfo \<notin> set (effects (fetch_pool_main w))
   \<and> (truthy (arg w 0) \<and> setWhirlpoolsConfig w = Inr ()
        \<and> getPositionAddress w (the (arg w 0)) = Inr positionAddress
        \<and> fetchPosition w positionAddress = Inr position
        \<and> fetchWhirlpool w (whirlpool position) = Inr p
        \<and> fetchTokenDecimals w (tokenMintA p) = Inr decimalsA
        \<and> fetchTokenDecimals w (tokenMintB p) = Inr decimalsB \<longrightarrow>
       (\<exists>j. stdout (fetch_position_main w) = Some j
          \<and> field j ''currentPrice''
              = Some (JString (number_toString w
                   (sqrtPriceToPrice w (sqrtPrice p) decimalsA decimalsB)))))
   \<and> (getAccountInfo w m = Inr None \<longrightarrow> fetchTokenDecimals w m = Inr (Some 6))
   \<and> (getAccountInfo w m = Inr (Some data) \<and> 44 < length data \<longrightarrow>
        fetchTokenDecimals w m = Inr (Some (unat (data ! 44))))"
proof (intro conjI impI)
  assume "truthy (arg w 0) \<and> setWhirlpoolsConfig w = Inr ()
      \<and> fetchWhirlpool w (the (arg w 0)) = Inr p"
  then show "\<exists>j. stdout (fetch_pool_main w) = Some j
         \<and> field j ''mintA'' = Some (JString (tokenMintA p))
         \<and> field j ''mintB'' = Some (JString (tokenMintB p))
         \<and> field j ''currentPrice''
             = Some (JString (number_toString w
                  (sqrtPriceToPrice w (sqrtPrice p) (Some 9) (Some 6))))"
    by (simp add: fetch_pool_main_def fetch_pool_try_def Let_def)
next
  show "GetAccountInfo \<notin> set (effects (fetch_pool_main w))"
    using fetch_pool_effects[of w] by auto
next
  assume "truthy (arg w 0) \<and> setWhirlpoolsConfig w = Inr ()
        \<and> getPositionAddress w (the (arg w 0)) = Inr positionAddress
        \<and> fetchPosition w positionAddress = Inr position
        \<and> fetchWhirlpool w (whirlpool position) = Inr p
        \<and> fetchTokenDecimals w (tokenMintA p) = Inr decimalsA
        \<and> fetchTokenDecimals w (tokenMintB p) = Inr decimalsB"
  then show "\<exists>j. stdout (fetch_position_main w) = Some j
          \<and> field j ''currentPrice''
              = Some (JString (number_toString w
                   (sqrtPriceToPrice w (sqrtPrice p) decimalsA decimalsB)))"
    by (simp add: fetch_position_main_def fetch_position_body_def Let_def)
next
  assume "getAccountInfo w m = Inr None"
  then show "fetchTokenDecimals w m = Inr (Some 6)"
    by (simp add: fetchTokenDecimals_def)
next
  assume "getAccountInfo w m = Inr (Some data) \<and> 44 < length data"
  then show "fetchTokenDecimals w m = Inr (Some (unat (data ! 44)))"
    by (simp add: fetchTokenDecimals_def)
qed

lemma minted_decimals:
  "fetchTokenDecimals minted_world ''MintA'' = Inr (Some 5)"
  "fetchTokenDecimals minted_world ''MintB'' = Inr (Some 8)"
  by (simp_all add: fetchTokenDecimals_def minted_world_def nth_append)

lemma minted_reads:
  "truthy (arg minted_world 0)" "the (arg minted_world 0) = ''Mint1''"
  "setWhirlpoolsConfig minted_world = Inr ()"
  "getPositionAddress minted_world ''Mint1'' = Inr ''pda-Mint1''"
  "fetchPosition minted_world a =
     Inr \<lparr> whirlpool = ''Pool1'', tickLowerIndex = - 64, tickUpperIndex = 64,
           liquidity = 5000, feeOwedA = 1, feeOwedB = 2 \<rparr>"
  "fetchWhirlpool minted_world b =
     Inr \<lparr> sqrtPrice = 7, tokenMintA = ''MintA'', tokenMintB = ''MintB'',
           tickSpacing = 64, tickCurrentIndex = 0, pool_liquidity = 9, feeRate = 3000 \<rparr>"
  "sqrtPriceToPrice minted_world 7 (Some 9) (Some 6) = Number 913"
  "sqrtPriceToPrice minted_world 7 (Some 5) (Some 8) = Number 515"
  by (simp_all add: minted_world_def quiet_world_def arg_def)

theorem price_decimals_witness:
  "fetchWhirlpool minted_world ''Mint1'' =
     Inr \<lparr> sqrtPrice = 7, tokenMintA = ''MintA'', tokenMintB = ''MintB'',
           tickSpacing = 64, tickCurrentIndex = 0, pool_liquidity = 9, feeRate = 3000 \<rparr>
   \<and> field (the (stdout (fetch_pool_main minted_world))) ''currentPrice''
       = Some (JString (number_toString minted_world (Number 913)))
   \<and> getAccountInfo minted_world ''MintA'' = Inr (Some (replicate 44 0 @ [5]))
   \<and> getAccountInfo minted_world ''MintB'' = Inr (Some (replicate 44 0 @ [8]))
   \<and> fetchTokenDecimals minted_world ''MintA'' = Inr (Some 5)
   \<and> fetchTokenDecimals minted_world ''MintB'' = Inr (Some 8)
   \<and> field (the (stdout (fetch_position_main minted_world))) ''currentPrice''
       = Some (JString (number_toString minted_world (Number 515)))
   \<and> getAccountInfo quiet_world ''MintA'' = Inr None
   \<and> fetchTokenDecimals quiet_world ''MintA'' = Inr (Some 6)"
proof -
  note t = price_decimals[of minted_world
      "\<lparr> sqrtPrice = 7, tokenMintA = ''MintA'', tokenMintB = ''MintB'',
         tickSpacing = 64, tickCurrentIndex = 0, pool_liquidity = 9, feeRate = 3000 \<rparr>"
      "''pda-Mint1''"
      "\<lparr> whirlpool = ''Pool1'', tickLowerIndex = - 64, tickUpperIndex = 64,
         liquidity = 5000, feeOwedA = 1, feeOwedB = 2 \<rparr>"
      "Some 5" "Some 8" "''MintA''" "replicate 44 0 @ [5]"]
  have a: "getAccountInfo minted_world ''MintA'' = Inr (Some (replicate 44 0 @ [5]))"
    "getAccountInfo minted_world ''MintB'' = Inr (Some (replicate 44 0 @ [8]))"
    "getAccountInfo quiet_world ''MintA'' = Inr None"
    by (simp_all add: minted_world_def quiet_world_def)
  from t a show ?thesis
    by (auto simp: minted_reads minted_decimals quiet_decimals)
qed

section \<open>Claims about the orchestrator\<close>

text \<open>
  Claim C5. The Range Selector returns
  \<open>lowerPrice = currentPrice * (1 - range_width_pct / 200)\<close> and
  \<open>upperPrice = currentPrice * (1 + range_width_pct / 200)\<close> whenever the width is positive;
  for a width of 10 and a price of 100 that is \<open>(95, 105)\<close>; and for every positive price
  and positive width the lower price is below the price and the price below the upper
  price.
\<close>

theorem selectRange_formula:
  "(0 < range_width_pct config \<longrightarrow>
      selectRange p config =
        Inr (p * (1 - range_width_pct config / 200), p * (1 + range_width_pct config / 200)))
   \<and> selectRange 100 (config \<lparr> range_width_pct := 10 \<rparr>) = Inr (95, 105)
   \<and> (0 < p \<and> 0 < range_width_pct config \<longrightarrow>
        (\<exists>lower upper. selectRange p config = Inr (lower, upper) \<and> lower < p \<and> p < upper))"
proof (intro conjI impI)
  assume "0 < range_width_pct config"
  then show "selectRange p config =
      Inr (p * (1 - range_width_pct config / 200), p * (1 + range_width_pct config / 200))"
    by (simp add: selectRange_def)
next
  show "selectRange 100 (config \<lparr> range_width_pct := 10 \<rparr>) = Inr (95, 105)"
    by (simp add: selectRange_def)
next
  assume a: "0 < p \<and> 0 < range_width_pct config"
  then have w: "0 < p * (range_width_pct config / 200)" by simp
  have "p * (1 - range_width_pct config / 200) = p - p * (range_width_pct config / 200)"
    "p * (1 + range_width_pct config / 200) = p + p * (range_width_pct config / 200)"
    by (simp_all add: algebra_simps)
  with w have "p * (1 - range_width_pct config / 200) < p"
    "p < p * (1 + range_width_pct config / 200)"
    by simp_all
  with a show "\<exists>lower upper. selectRange p config = Inr (lower, upper) \<and> lower < p \<and> p < upper"
    by (simp add: selectRange_def)
qed

theorem selectRange_formula_witness:
  "0 < range_width_pct example_config
   \<and> (0::real) < 115
   \<and> selectRange 115 example_config = Inr (437 / 4, 483 / 4)
   \<and> selectRange 100 example_config = Inr (95, 105)
   \<and> (437 / 4 :: real) < 115 \<and> (115 :: real) < 483 / 4"
proof -
  have h: "0 < range_width_pct example_config" "range_width_pct example_config = 10"
    "example_config \<lparr> range_width_pct := 10 \<rparr> = example_config"
    by (simp_all add: example_config_def)
  from selectRange_formula[of example_config 115] h show ?thesis by simp
qed

text \<open>
  With a width of 5 and a price of 115 the formula gives \<open>(112.125, 117.875)\<close>: half the
  width on each side of the price.
\<close>

lemma selectRange_width_5:
  "selectRange 115 (config \<lparr> range_width_pct := 5 \<rparr>) = Inr (897 / 8, 943 / 8)"
  by (simp add: selectRange_def)

text \<open>
  Claim C6. For every snapshot that is in range, the Trigger Evaluator returns
  \<open>NearEdge\<close> if and only if the distance from the current price to the nearer boundary,
  divided by the width of the range \<open>upperPrice - lowerPrice\<close>, is at most
  \<open>edge_threshold_pct / 100\<close>; a snapshot exactly at the threshold is near the edge.
\<close>

theorem near_edge_threshold:
  "inRange s \<longrightarrow>
     (evaluate (Some s) config = NearEdge \<longleftrightarrow>
        min (currentPrice s - lowerPrice s) (upperPrice s - currentPrice s)
          / (upperPrice s - lowerPrice s) \<le> edge_threshold_pct config / 100)
     \<and> (min (currentPrice s - lowerPrice s) (upperPrice s - currentPrice s)
          / (upperPrice s - lowerPrice s) = edge_threshold_pct config / 100 \<longrightarrow>
        evaluate (Some s) config = NearEdge)"
proof
  assume r: "inRange s"
  have d: "distance_to_nearer_boundary s
      = min (currentPrice s - lowerPrice s) (upperPrice s - currentPrice s)"
    by (simp add: distance_to_nearer_boundary_def min_def)
  have e: "evaluate (Some s) config = NearEdge \<longleftrightarrow>
      distance_to_nearer_boundary s / range_width s \<le> edge_threshold_pct config / 100"
    using r by (simp add: evaluate_def)
  show "(evaluate (Some s) config = NearEdge \<longleftrightarrow>
        min (currentPrice s - lowerPrice s) (upperPrice s - currentPrice s)
          / (upperPrice s - lowerPrice s) \<le> edge_threshold_pct config / 100)
     \<and> (min (currentPrice s - lowerPrice s) (upperPrice s - currentPrice s)
          / (upperPrice s - lowerPrice s) = edge_threshold_pct config / 100 \<longrightarrow>
        evaluate (Some s) config = NearEdge)"
    unfolding e d range_width_def by simp
qed

theorem near_edge_threshold_witness:
  "inRange edge_snapshot
   \<and> min (currentPrice edge_snapshot - lowerPrice edge_snapshot)
          (upperPrice edge_snapshot - currentPrice edge_snapshot)
        / (upperPrice edge_snapshot - lowerPrice edge_snapshot)
      = edge_threshold_pct example_config / 100
   \<and> evaluate (Some edge_snapshot) example_config = NearEdge
   \<and> evaluate (Some (edge_snapshot \<lparr> currentPrice := 93 \<rparr>)) example_config \<noteq> NearEdge"
proof -
  have h: "inRange edge_snapshot" "inRange (edge_snapshot \<lparr> currentPrice := 93 \<rparr>)"
    by (simp_all add: edge_snapshot_def)
  have v: "min (currentPrice edge_snapshot - lowerPrice edge_snapshot)
          (upperPrice edge_snapshot - currentPrice edge_snapshot)
        / (upperPrice edge_snapshot - lowerPrice edge_snapshot)
      = edge_threshold_pct example_config / 100"
    by (simp add: edge_snapshot_def example_config_def)
  have v': "\<not> min (currentPrice (edge_snapshot \<lparr> currentPrice := 93 \<rparr>)
              - lowerPrice (edge_snapshot \<lparr> currentPrice := 93 \<rparr>))
          (upperPrice (edge_snapshot \<lparr> currentPrice := 93 \<rparr>)
              - currentPrice (edge_snapshot \<lparr> currentPrice := 93 \<rparr>))
        / (upperPrice (edge_snapshot \<lparr> currentPrice := 93 \<rparr>)
              - lowerPrice (edge_snapshot \<lparr> currentPrice := 93 \<rparr>))
      \<le> edge_threshold_pct example_config / 100"
    by (simp add: edge_snapshot_def example_config_def)
  from near_edge_threshold[of edge_snapshot example_config]
    near_edge_threshold[of "edge_snapshot \<lparr> currentPrice := 93 \<rparr>" example_config] h v v'
  show ?thesis by blast
qed

text \<open>
  Claim C4. When the persisted state has a workflow in flight with
  \<open>pending_step = Swap\<close>, invoking the workflow does not execute (or log) the withdraw
  step: the first thing it does is the swap step, given the stored
  \<open>withdrawn_amounts\<close> (in a dry run, the swap step is logged instead).
\<close>

theorem resume_at_swap:
  assumes "pending_rebalance st" and "pending_step st = Swap"
  shows "(\<forall>m. ExecWithdraw m \<notin> set (fst (run_workflow x config decision force_rebalance st)))
     \<and> Logged Withdraw \<notin> set (fst (run_workflow x config decision force_rebalance st))
     \<and> fst (run_workflow x config decision force_rebalance st) \<noteq> []
     \<and> hd (fst (run_workflow x config decision force_rebalance st))
         = (if dry_run config then Logged Swap else ExecSwap (withdrawn_amounts st))"
  using assms
  by (auto simp: run_workflow_def resume_def swap_step_def open_step_def Let_def
      split: sum.splits prod.splits)

theorem resume_at_swap_witness:
  "pending_rebalance interrupted_state \<and> pending_step interrupted_state = Swap
   \<and> fst (run_workflow steady_collaborators example_config NoDecision False interrupted_state)
       = [ExecSwap \<lparr> tokenA = 10, tokenB = 20 \<rparr>,
          Saved (interrupted_state \<lparr> pending_step := Open \<rparr>),
          ExecOpen,
          Saved (interrupted_state \<lparr> current_position_mint := Some ''Mint2'',
                   last_rebalance := Some 1700000000, pending_step := StepNone,
                   pending_rebalance := False \<rparr>)]
   \<and> hd (fst (run_workflow steady_collaborators example_config NoDecision False
                 interrupted_state))
       = ExecSwap (withdrawn_amounts interrupted_state)"
proof -
  have h: "pending_rebalance interrupted_state" "pending_step interrupted_state = Swap"
    by (simp_all add: interrupted_state_def)
  have d: "\<not> dry_run example_config" by (simp add: example_config_def)
  have r: "fst (run_workflow steady_collaborators example_config NoDecision False
                  interrupted_state)
       = [ExecSwap \<lparr> tokenA = 10, tokenB = 20 \<rparr>,
          Saved (interrupted_state \<lparr> pending_step := Open \<rparr>),
          ExecOpen,
          Saved (interrupted_state \<lparr> current_position_mint := Some ''Mint2'',
                   last_rebalance := Some 1700000000, pending_step := StepNone,
                   pending_rebalance := False \<rparr>)]"
    by (simp add: run_workflow_def resume_def swap_step_def open_step_def selectRange_def
        Let_def steady_collaborators_def example_config_def interrupted_state_def)
  from resume_at_swap[OF h, of steady_collaborators example_config NoDecision False] h d r
  show ?thesis by simp
qed

end
